theory Spec2Isabelle
  imports Complex_Main "HOL-Library.AList"
begin

section \<open>JavaScript values used by the App Check providers\<close>

text \<open>
  A JavaScript number is modelled on the values the providers handle: the integers
  (timestamps in milliseconds, counts, HTTP status codes), which a double represents
  exactly far beyond any timestamp, and \<open>NaN\<close>, which \<open>Number(...)\<close> produces from a value
  that is no number.
\<close>

datatype jsnumber = NaN | Num int

text \<open>The primitive values a property read can produce.\<close>

datatype jsval = JUndefined | JNull | JBoolean bool | JNumber jsnumber | JString string

text \<open>
  An object literal is the list of its properties in insertion order; reading a property
  that is not there gives \<open>undefined\<close>.
\<close>

type_synonym jsobject = "(string \<times> jsval) list"

definition get_prop :: "jsobject \<Rightarrow> string \<Rightarrow> jsval" where
  "get_prop obj k = (case map_of obj k of None \<Rightarrow> JUndefined | Some v \<Rightarrow> v)"

text \<open>\<open>a === b\<close>, \<open>a < b\<close>, \<open>a > b\<close> and \<open>a * b\<close> on numbers: every comparison with \<open>NaN\<close> is false.\<close>

fun strict_eq :: "jsnumber \<Rightarrow> jsnumber \<Rightarrow> bool" where
  "strict_eq (Num a) (Num b) = (a = b)"
| "strict_eq _ _ = False"

fun js_less :: "jsnumber \<Rightarrow> jsnumber \<Rightarrow> bool" where
  "js_less (Num a) (Num b) = (a < b)"
| "js_less _ _ = False"

fun js_greater :: "jsnumber \<Rightarrow> jsnumber \<Rightarrow> bool" where
  "js_greater (Num a) (Num b) = (a > b)"
| "js_greater _ _ = False"

fun js_times :: "jsnumber \<Rightarrow> jsnumber \<Rightarrow> jsnumber" where
  "js_times (Num a) (Num b) = Num (a * b)"
| "js_times _ _ = NaN"

text \<open>
  What the providers take from outside \<open>providers.ts\<close> and the language runtime:
  \<open>new Date(ms).toLocaleString()\<close>, which depends on the locale;
  \<open>calculateBackoffMillis(backoffCount, intervalMillis, backoffFactor)\<close> of
  \<open>@firebase/util\<close>, whose result includes a random jitter, so that a value of
  \<open>externals\<close> stands for the runtime during one call; the runtime's conversion
  of a string to a number; and \<open>issuedAtTime(token)\<close> of \<open>@firebase/util\<close>, which gives the
  \<open>iat\<close> claim of a token or \<open>null\<close>.
\<close>

record externals =
  toLocaleString :: "int \<Rightarrow> string"
  calculateBackoffMillis :: "nat \<Rightarrow> int \<Rightarrow> int \<Rightarrow> int"
  StringToNumber :: "string \<Rightarrow> jsnumber"
  issuedAtTime :: "jsval \<Rightarrow> jsnumber option"

text \<open>\<open>Number(v)\<close>: \<open>undefined\<close> becomes \<open>NaN\<close>, \<open>null\<close> becomes 0, a boolean 0 or 1.\<close>

fun Number :: "externals \<Rightarrow> jsval \<Rightarrow> jsnumber" where
  "Number ext JUndefined = NaN"
| "Number ext JNull = Num 0"
| "Number ext (JBoolean b) = Num (if b then 1 else 0)"
| "Number ext (JNumber n) = n"
| "Number ext (JString s) = StringToNumber ext s"

section \<open>Errors\<close>

text \<open>The error codes of \<open>AppCheckError\<close> that \<open>providers.ts\<close> names; any other code is \<open>OTHER_CODE\<close>.\<close>

datatype AppCheckError =
  FETCH_STATUS_ERROR | THROTTLED | USE_BEFORE_ACTIVATION | RECAPTCHA_ERROR | OTHER_CODE string

text \<open>
  A thrown value, read the way the provider reads it: \<open>e.code\<close> (absent on a value that is
  no \<open>FirebaseError\<close>) and \<open>e.customData\<close> (optional).
\<close>

record FirebaseError =
  code :: "AppCheckError option"
  customData :: "jsobject option"

text \<open>
  Modelled from the spec: \<open>ERROR_FACTORY\<close> of \<open>./errors\<close> is not among the sources. The
  error it creates is kept as the code and the data it was created with.
\<close>

definition ERROR_FACTORY_create :: "AppCheckError \<Rightarrow> jsobject \<Rightarrow> FirebaseError" where
  "ERROR_FACTORY_create c d = \<lparr>code = Some c, customData = Some d\<rparr>"

text \<open>
  Modelled from the spec: \<open>ONE_DAY\<close> of \<open>./constants\<close> is not among the sources. The spec's
  scenario for a 403 gives the window as 86400000 ms.
\<close>

definition ONE_DAY :: int where
  "ONE_DAY = 24 * 60 * 60 * 1000"

section \<open>ReCaptchaV3Provider\<close>

type_synonym FirebaseApp = string

record ThrottleData =
  backoffCount :: nat
  allowRequestsAfter :: int
  httpStatus :: jsnumber

text \<open>
  The fields \<open>_app\<close>, \<open>_platformLoggerProvider\<close>, \<open>_throttleData\<close> and \<open>_siteKey\<close>. An
  app is kept as its identity; \<open>'p\<close> is the handle \<open>_getProvider\<close> returns.
\<close>

record 'p ReCaptchaV3Provider =
  rc_app :: "FirebaseApp option"
  rc_platformLoggerProvider :: "'p option"
  rc_throttleData :: "ThrottleData option"
  rc_siteKey :: string

definition new_ReCaptchaV3Provider :: "string \<Rightarrow> 'p ReCaptchaV3Provider" where
  "new_ReCaptchaV3Provider siteKey =
     \<lparr>rc_app = None, rc_platformLoggerProvider = None, rc_throttleData = None,
      rc_siteKey = siteKey\<rparr>"

text \<open>
  \<open>_setBackoff(httpStatus)\<close>, with \<open>now\<close> the value of \<open>Date.now()\<close>: returns the new
  record and the provider holding it.
\<close>

definition setBackoff ::
  "externals \<Rightarrow> int \<Rightarrow> jsnumber \<Rightarrow> 'p ReCaptchaV3Provider
     \<Rightarrow> ThrottleData \<times> 'p ReCaptchaV3Provider" where
  "setBackoff ext now status s =
     (if strict_eq status (Num 404) \<or> strict_eq status (Num 403) then
        (let td = \<lparr>backoffCount = 1, allowRequestsAfter = now + ONE_DAY,
                   httpStatus = status\<rparr>
         in (td, s\<lparr>rc_throttleData := Some td\<rparr>))
      else
        (let count = (case rc_throttleData s of Some td \<Rightarrow> backoffCount td | None \<Rightarrow> 0);
             backoffMillis = calculateBackoffMillis ext count 1000 2;
             td = \<lparr>backoffCount = count + 1, allowRequestsAfter = now + backoffMillis,
                   httpStatus = status\<rparr>
         in (td, s\<lparr>rc_throttleData := Some td\<rparr>)))"

text \<open>
  The start of \<open>getToken\<close>: the check of the throttle record against \<open>now = Date.now()\<close>.
  It throws, or goes on with the record cleared or absent.
\<close>

definition throttled_error :: "externals \<Rightarrow> ThrottleData \<Rightarrow> FirebaseError" where
  "throttled_error ext td =
     ERROR_FACTORY_create THROTTLED
       [(''time'', JString (toLocaleString ext (allowRequestsAfter td))),
        (''httpStatus'', JNumber (httpStatus td))]"

definition rc_throttleCheck ::
  "externals \<Rightarrow> int \<Rightarrow> 'p ReCaptchaV3Provider \<Rightarrow> FirebaseError + 'p ReCaptchaV3Provider" where
  "rc_throttleCheck ext now s =
     (case rc_throttleData s of
        None \<Rightarrow> Inr s
      | Some td \<Rightarrow>
          if now - allowRequestsAfter td > 0 then Inr (s\<lparr>rc_throttleData := None\<rparr>)
          else Inl (throttled_error ext td))"

text \<open>The check that \<open>initialize\<close> has run: both \<open>_app\<close> and \<open>_platformLoggerProvider\<close> are set.\<close>

definition rc_activationCheck ::
  "'p ReCaptchaV3Provider \<Rightarrow> FirebaseError + (FirebaseApp \<times> 'p)" where
  "rc_activationCheck s =
     (case (rc_app s, rc_platformLoggerProvider s) of
        (Some app, Some plp) \<Rightarrow> Inr (app, plp)
      | _ \<Rightarrow> Inl (ERROR_FACTORY_create USE_BEFORE_ACTIVATION [(''appName'', JString [])]))"

text \<open>\<open>e.customData?.httpStatus\<close>.\<close>

definition optional_httpStatus :: "FirebaseError \<Rightarrow> jsval" where
  "optional_httpStatus e =
     (case customData e of None \<Rightarrow> JUndefined | Some d \<Rightarrow> get_prop d ''httpStatus'')"

text \<open>
  The \<open>catch\<close> block around the exchange, with \<open>now = Date.now()\<close> as \<open>_setBackoff\<close>
  reads it: the value thrown and the provider afterwards.
\<close>

definition rc_catch ::
  "externals \<Rightarrow> int \<Rightarrow> FirebaseError \<Rightarrow> 'p ReCaptchaV3Provider
     \<Rightarrow> FirebaseError \<times> 'p ReCaptchaV3Provider" where
  "rc_catch ext now e s =
     (if code e = Some FETCH_STATUS_ERROR then
        (let (throttleData, s') = setBackoff ext now (Number ext (optional_httpStatus e)) s
         in (throttled_error ext throttleData, s'))
      else (e, s))"

text \<open>The calls \<open>getToken\<close> makes to its collaborators, in order.\<close>

datatype 'p call = GetReCAPTCHAToken FirebaseApp | ExchangeToken FirebaseApp string 'p

text \<open>
  \<open>getToken()\<close>. \<open>getReCAPTCHAToken app\<close> is the outcome of the attestation (a rejection
  or the attested claims token), \<open>exchangeToken app token plp\<close> the outcome of
  \<open>exchangeToken(getExchangeRecaptchaTokenRequest(app, token), plp)\<close>; \<open>now\<close> is
  \<open>Date.now()\<close> on entry and \<open>now'\<close> in the \<open>catch\<close> block. The result is what the call
  throws or returns, the provider afterwards, and the collaborator calls made.
\<close>

definition rc_getToken ::
  "externals \<Rightarrow> (FirebaseApp \<Rightarrow> jsval + string)
     \<Rightarrow> (FirebaseApp \<Rightarrow> string \<Rightarrow> 'p \<Rightarrow> FirebaseError + jsobject)
     \<Rightarrow> int \<Rightarrow> int \<Rightarrow> 'p ReCaptchaV3Provider
     \<Rightarrow> (FirebaseError + jsobject) \<times> 'p ReCaptchaV3Provider \<times> 'p call list" where
  "rc_getToken ext getReCAPTCHAToken exchangeToken now now' s =
     (case rc_throttleCheck ext now s of
        Inl err \<Rightarrow> (Inl err, s, [])
      | Inr s1 \<Rightarrow>
          (case rc_activationCheck s1 of
             Inl err \<Rightarrow> (Inl err, s1, [])
           | Inr (app, plp) \<Rightarrow>
               (case getReCAPTCHAToken app of
                  Inl _ \<Rightarrow>
                    (Inl (ERROR_FACTORY_create RECAPTCHA_ERROR []), s1, [GetReCAPTCHAToken app])
                | Inr attestedClaimsToken \<Rightarrow>
                    (case exchangeToken app attestedClaimsToken plp of
                       Inr result \<Rightarrow>
                         (Inr result, s1,
                          [GetReCAPTCHAToken app, ExchangeToken app attestedClaimsToken plp])
                     | Inl e \<Rightarrow>
                         (let (err, s2) = rc_catch ext now' e s1
                          in (Inl err, s2,
                              [GetReCAPTCHAToken app,
                               ExchangeToken app attestedClaimsToken plp]))))))"

text \<open>
  \<open>initialize(app)\<close>. The call to \<open>initializeRecaptcha\<close> is not awaited and its outcome is
  dropped; it touches no field of the provider.
\<close>

definition rc_initialize ::
  "(FirebaseApp \<Rightarrow> string \<Rightarrow> 'p) \<Rightarrow> FirebaseApp \<Rightarrow> 'p ReCaptchaV3Provider
     \<Rightarrow> 'p ReCaptchaV3Provider" where
  "rc_initialize getProvider app s =
     s\<lparr>rc_app := Some app,
       rc_platformLoggerProvider := Some (getProvider app ''platform-logger'')\<rparr>"

section \<open>CustomProvider\<close>

text \<open>
  A function value: which function object it is, and the text \<open>toString()\<close> gives for it
  (its source).
\<close>

record jsfunction =
  fn_identity :: nat
  fn_toString :: string

record CustomProviderOptions =
  opt_getToken :: jsfunction

record CustomProvider =
  cp_app :: "FirebaseApp option"
  cp_customProviderOptions :: CustomProviderOptions

definition new_CustomProvider :: "CustomProviderOptions \<Rightarrow> CustomProvider" where
  "new_CustomProvider customProviderOptions =
     \<lparr>cp_app = None, cp_customProviderOptions = customProviderOptions\<rparr>"

text \<open>
  \<open>getToken()\<close>. \<open>callback\<close> is the outcome of awaiting
  \<open>this._customProviderOptions.getToken()\<close>: a rejection or the token object; \<open>now\<close> is
  \<open>Date.now()\<close>, read in one synchronous expression. The provider is not changed.
\<close>

definition cp_getToken ::
  "externals \<Rightarrow> int \<Rightarrow> (FirebaseError + jsobject) \<Rightarrow> CustomProvider
     \<Rightarrow> FirebaseError + jsobject" where
  "cp_getToken ext now callback s =
     (case cp_app s of
        None \<Rightarrow> Inl (ERROR_FACTORY_create USE_BEFORE_ACTIVATION [(''appName'', JString [])])
      | Some app \<Rightarrow>
          (case callback of
             Inl e \<Rightarrow> Inl e
           | Inr customToken \<Rightarrow>
               (let issuedAtTimeSeconds = issuedAtTime ext (get_prop customToken ''token'');
                    issuedAtTimeMillis =
                      (case issuedAtTimeSeconds of
                         None \<Rightarrow> Num now
                       | Some t \<Rightarrow>
                           if js_less t (Num now) \<and> js_greater t (Num 0)
                           then js_times t (Num 1000)
                           else Num now)
                in Inr (AList.update ''issuedAtTimeMillis'' (JNumber issuedAtTimeMillis)
                          customToken))))"

definition cp_initialize :: "FirebaseApp \<Rightarrow> CustomProvider \<Rightarrow> CustomProvider" where
  "cp_initialize app s = s\<lparr>cp_app := Some app\<rparr>"

section \<open>Equality of providers\<close>

datatype 'p AppCheckProvider =
  ReCaptchaV3 "'p ReCaptchaV3Provider" | Custom CustomProvider

text \<open>The argument of \<open>isEqual\<close> has type \<open>unknown\<close>: a provider or some other value.\<close>

datatype 'p unknown = AProvider "'p AppCheckProvider" | NotAProvider jsval

definition rc_isEqual :: "'p ReCaptchaV3Provider \<Rightarrow> 'p unknown \<Rightarrow> bool" where
  "rc_isEqual s otherProvider =
     (case otherProvider of
        AProvider (ReCaptchaV3 other) \<Rightarrow> rc_siteKey s = rc_siteKey other
      | _ \<Rightarrow> False)"

definition cp_isEqual :: "CustomProvider \<Rightarrow> 'p unknown \<Rightarrow> bool" where
  "cp_isEqual s otherProvider =
     (case otherProvider of
        AProvider (Custom other) \<Rightarrow>
          fn_toString (opt_getToken (cp_customProviderOptions s)) =
          fn_toString (opt_getToken (cp_customProviderOptions other))
      | _ \<Rightarrow> False)"

text \<open>\<open>provider.isEqual(other)\<close>, dispatched on the class of the receiver.\<close>

fun isEqual :: "'p AppCheckProvider \<Rightarrow> 'p unknown \<Rightarrow> bool" where
  "isEqual (ReCaptchaV3 s) otherProvider = rc_isEqual s otherProvider"
| "isEqual (Custom s) otherProvider = cp_isEqual s otherProvider"

section \<open>Histories of a ReCaptchaV3Provider\<close>

text \<open>
  \<open>getToken\<close> is asynchronous: between its awaits other calls on the same provider run.
  A history is a list of events; beside the provider it tracks how many \<open>getToken\<close> calls
  have passed the activation check and are awaiting a collaborator.
  \<^item> \<open>Initialize\<close>: a call of \<open>initialize\<close>;
  \<^item> \<open>GetTokenCalled\<close>: a call of \<open>getToken\<close> runs up to its first await;
  \<^item> \<open>CallSettles\<close>: an awaiting call ends without the throttle transition (the
    attestation failed or the exchange succeeded);
  \<^item> \<open>ExchangeFails\<close>: the exchange of an awaiting call throws, and its \<open>catch\<close> block runs.
\<close>

datatype 'p event =
    Initialize "FirebaseApp \<Rightarrow> string \<Rightarrow> 'p" FirebaseApp
  | GetTokenCalled externals int
  | CallSettles
  | ExchangeFails externals int FirebaseError

fun step :: "'p event \<Rightarrow> 'p ReCaptchaV3Provider \<times> nat \<Rightarrow> 'p ReCaptchaV3Provider \<times> nat" where
  "step (Initialize getProvider app) (s, awaiting) = (rc_initialize getProvider app s, awaiting)"
| "step (GetTokenCalled ext now) (s, awaiting) =
     (case rc_throttleCheck ext now s of
        Inl err \<Rightarrow> (s, awaiting)
      | Inr s1 \<Rightarrow>
          (case rc_activationCheck s1 of
             Inl err \<Rightarrow> (s1, awaiting)
           | Inr _ \<Rightarrow> (s1, Suc awaiting)))"
| "step CallSettles (s, awaiting) = (s, awaiting - 1)"
| "step (ExchangeFails ext now e) (s, awaiting) =
     (if awaiting = 0 then (s, awaiting) else (snd (rc_catch ext now e s), awaiting - 1))"

fun run :: "'p event list \<Rightarrow> 'p ReCaptchaV3Provider \<times> nat \<Rightarrow> 'p ReCaptchaV3Provider \<times> nat" where
  "run [] c = c"
| "run (ev # evs) c = run evs (step ev c)"

text \<open>
  The invariant of the histories: a provider that holds a throttle record, or has a call
  awaiting a collaborator, has been initialized.
\<close>

definition initialized :: "'p ReCaptchaV3Provider \<Rightarrow> bool" where
  "initialized s = (rc_app s \<noteq> None \<and> rc_platformLoggerProvider s \<noteq> None)"

definition throttle_inv :: "'p ReCaptchaV3Provider \<times> nat \<Rightarrow> bool" where
  "throttle_inv c = (case c of (s, awaiting) \<Rightarrow>
     (if rc_throttleData s \<noteq> None \<or> awaiting > 0 then initialized s else True))"

fun is_Initialize :: "'p event \<Rightarrow> bool" where
  "is_Initialize (Initialize getProvider app) = True"
| "is_Initialize _ = False"

section \<open>Concrete inputs\<close>

text \<open>
  A runtime without jitter, where a token \<open>jwt-5\<close> carries \<open>iat = 5\<close> and a token
  \<open>jwt-1700086400\<close> carries \<open>iat = 1700086400\<close>; an initialized
  provider; the same provider after five transient failures; collaborators whose
  attestation succeeds and whose exchange throws a given value.
\<close>

definition example_externals :: externals where
  "example_externals =
     \<lparr>toLocaleString = (\<lambda>ms. if ms = 1000 then ''1/1/1970, 12:00:01 AM'' else ''later''),
      calculateBackoffMillis = (\<lambda>count interval factor. interval * factor ^ count),
      StringToNumber = (\<lambda>s. NaN),
      issuedAtTime =
        (\<lambda>v. if v = JString ''jwt-5'' then Some (Num 5)
             else if v = JString ''jwt-1700086400'' then Some (Num 1700086400)
             else None)\<rparr>"

definition example_provider :: "nat ReCaptchaV3Provider" where
  "example_provider =
     rc_initialize (\<lambda>app name. 7) ''app'' (new_ReCaptchaV3Provider ''site-key'')"

definition throttled_provider :: "nat ReCaptchaV3Provider" where
  "throttled_provider =
     example_provider
       \<lparr>rc_throttleData :=
          Some \<lparr>backoffCount = 5, allowRequestsAfter = 1000, httpStatus = Num 500\<rparr>\<rparr>"

definition status_error :: "jsval \<Rightarrow> FirebaseError" where
  "status_error v = \<lparr>code = Some FETCH_STATUS_ERROR, customData = Some [(''httpStatus'', v)]\<rparr>"

definition network_error :: FirebaseError where
  "network_error = \<lparr>code = None, customData = None\<rparr>"

definition attested :: "FirebaseApp \<Rightarrow> jsval + string" where
  "attested app = Inr ''attested-claims''"

definition exchange_fails ::
  "FirebaseError \<Rightarrow> FirebaseApp \<Rightarrow> string \<Rightarrow> nat \<Rightarrow> FirebaseError + jsobject" where
  "exchange_fails e app tok plp = Inl e"

definition example_callback :: jsfunction where
  "example_callback = \<lparr>fn_identity = 1, fn_toString = ''() => fetchToken()''\<rparr>"

definition example_custom :: CustomProvider where
  "example_custom =
     cp_initialize ''app'' (new_CustomProvider \<lparr>opt_getToken = example_callback\<rparr>)"

definition reused_token :: jsobject where
  "reused_token = [(''token'', JString ''jwt-5''), (''expireTimeMillis'', JNumber (Num 900000))]"

definition future_token :: jsobject where
  "future_token =
     [(''token'', JString ''jwt-1700086400''), (''expireTimeMillis'', JNumber (Num 1700090000000))]"

section \<open>Facts about the parts of \<open>getToken\<close>\<close>

lemma rc_throttleCheck_absent: "rc_throttleData s = None \<Longrightarrow> rc_throttleCheck ext now s = Inr s"
  by (simp add: rc_throttleCheck_def)

lemma rc_throttleCheck_after:
  "rc_throttleData s = Some td \<Longrightarrow> allowRequestsAfter td < now \<Longrightarrow>
   rc_throttleCheck ext now s = Inr (s\<lparr>rc_throttleData := None\<rparr>)"
  by (simp add: rc_throttleCheck_def)

lemma rc_throttleCheck_within:
  "rc_throttleData s = Some td \<Longrightarrow> now \<le> allowRequestsAfter td \<Longrightarrow>
   rc_throttleCheck ext now s = Inl (throttled_error ext td)"
  by (simp add: rc_throttleCheck_def)

lemma rc_throttleCheck_fields:
  "rc_throttleCheck ext now s = Inr s1 \<Longrightarrow>
   rc_app s1 = rc_app s \<and> rc_platformLoggerProvider s1 = rc_platformLoggerProvider s
   \<and> rc_throttleData s1 = None"
  by (auto simp: rc_throttleCheck_def split: option.splits if_splits)

lemma rc_activationCheck_set:
  "rc_app s = Some app \<Longrightarrow> rc_platformLoggerProvider s = Some plp \<Longrightarrow>
   rc_activationCheck s = Inr (app, plp)"
  by (simp add: rc_activationCheck_def)

lemma rc_activationCheck_unset:
  "rc_app s = None \<or> rc_platformLoggerProvider s = None \<Longrightarrow>
   rc_activationCheck s =
     Inl (ERROR_FACTORY_create USE_BEFORE_ACTIVATION [(''appName'', JString [])])"
  by (auto simp: rc_activationCheck_def split: option.splits)

lemma rc_activationCheck_passed:
  "rc_activationCheck s = Inr ap \<Longrightarrow> initialized s"
  by (auto simp: rc_activationCheck_def initialized_def split: option.splits)

lemma setBackoff_stores:
  "snd (setBackoff ext now status s) =
     s\<lparr>rc_throttleData := Some (fst (setBackoff ext now status s))\<rparr>"
  by (simp add: setBackoff_def Let_def)

lemma rc_catch_status:
  "code e = Some FETCH_STATUS_ERROR \<Longrightarrow>
   rc_catch ext now e s =
     (throttled_error ext (fst (setBackoff ext now (Number ext (optional_httpStatus e)) s)),
      snd (setBackoff ext now (Number ext (optional_httpStatus e)) s))"
  by (simp add: rc_catch_def case_prod_beta)

lemma rc_catch_other: "code e \<noteq> Some FETCH_STATUS_ERROR \<Longrightarrow> rc_catch ext now e s = (e, s)"
  by (simp add: rc_catch_def)

lemma rc_catch_fields:
  "rc_app (snd (rc_catch ext now e s)) = rc_app s \<and>
   rc_platformLoggerProvider (snd (rc_catch ext now e s)) = rc_platformLoggerProvider s"
  by (simp add: rc_catch_def case_prod_beta setBackoff_stores)

lemma rc_getToken_within:
  "rc_throttleData s = Some td \<Longrightarrow> now \<le> allowRequestsAfter td \<Longrightarrow>
   rc_getToken ext att exch now now' s = (Inl (throttled_error ext td), s, [])"
  by (simp add: rc_getToken_def rc_throttleCheck_within)

lemma rc_getToken_cleared:
  "rc_throttleData s = Some td \<Longrightarrow> allowRequestsAfter td < now \<Longrightarrow>
   rc_getToken ext att exch now now' s =
   rc_getToken ext att exch now now' (s\<lparr>rc_throttleData := None\<rparr>)"
  by (simp add: rc_getToken_def rc_throttleCheck_after rc_throttleCheck_absent)

lemma rc_getToken_entry_passed:
  assumes "rc_throttleData s = None \<or>
           (\<exists>td. rc_throttleData s = Some td \<and> allowRequestsAfter td < now)"
  shows "rc_getToken ext att exch now now' s =
           rc_getToken ext att exch now now' (s\<lparr>rc_throttleData := None\<rparr>)"
  using assms
proof
  assume "rc_throttleData s = None"
  then have "s\<lparr>rc_throttleData := None\<rparr> = s" by simp
  then show ?thesis by simp
next
  assume "\<exists>td. rc_throttleData s = Some td \<and> allowRequestsAfter td < now"
  then show ?thesis by (auto simp: rc_getToken_cleared)
qed

lemma rc_getToken_exchanged:
  assumes "rc_throttleData s = None" and "rc_app s = Some app"
    and "rc_platformLoggerProvider s = Some plp" and "att app = Inr tok"
  shows "rc_getToken ext att exch now now' s =
           (case exch app tok plp of
              Inr result \<Rightarrow> (Inr result, s, [GetReCAPTCHAToken app, ExchangeToken app tok plp])
            | Inl e \<Rightarrow> (Inl (fst (rc_catch ext now' e s)), snd (rc_catch ext now' e s),
                        [GetReCAPTCHAToken app, ExchangeToken app tok plp]))"
  using assms
  by (simp add: rc_getToken_def rc_throttleCheck_absent rc_activationCheck_set
      split: sum.splits prod.splits)


lemma rc_getToken_uninitialized:
  assumes "rc_throttleData s = None"
    and "rc_app s = None \<or> rc_platformLoggerProvider s = None"
  shows "rc_getToken ext att exch now now' s =
           (Inl (ERROR_FACTORY_create USE_BEFORE_ACTIVATION [(''appName'', JString [])]), s, [])"
  using assms
  by (simp add: rc_getToken_def rc_throttleCheck_absent rc_activationCheck_unset)


lemma filter_update_other:
  "filter (\<lambda>q. fst q \<noteq> k) (AList.update k v al) = filter (\<lambda>q. fst q \<noteq> k) al"
  by (induction al) auto

text \<open>The concrete inputs, field by field.\<close>

lemma example_provider_fields:
  "rc_app example_provider = Some ''app''"
  "rc_platformLoggerProvider example_provider = Some 7"
  "rc_throttleData example_provider = None"
  by (simp_all add: example_provider_def rc_initialize_def new_ReCaptchaV3Provider_def)

lemma throttled_provider_fields:
  "rc_app throttled_provider = Some ''app''"
  "rc_platformLoggerProvider throttled_provider = Some 7"
  "rc_throttleData throttled_provider =
     Some \<lparr>backoffCount = 5, allowRequestsAfter = 1000, httpStatus = Num 500\<rparr>"
  by (simp_all add: throttled_provider_def example_provider_fields)

lemma example_externals_fields:
  "toLocaleString example_externals ms =
     (if ms = 1000 then ''1/1/1970, 12:00:01 AM'' else ''later'')"
  "calculateBackoffMillis example_externals count interval factor = interval * factor ^ count"
  "StringToNumber example_externals str = NaN"
  "issuedAtTime example_externals v =
     (if v = JString ''jwt-5'' then Some (Num 5)
      else if v = JString ''jwt-1700086400'' then Some (Num 1700086400)
      else None)"
  by (simp_all add: example_externals_def)

lemma example_custom_fields:
  "cp_app example_custom = Some ''app''"
  "opt_getToken (cp_customProviderOptions example_custom) = example_callback"
  by (simp_all add: example_custom_def cp_initialize_def new_CustomProvider_def)

section \<open>The throttle check on entry\<close>

text \<open>
  C1, as the code has it. While a throttle record is present, a call of \<open>getToken\<close> with
  \<open>allowRequestsAfter < now\<close> clears the record and goes on as a call on the provider
  without a record does; on an initialized provider whose attestation succeeds it makes
  exactly one exchange call. With \<open>now \<le> allowRequestsAfter\<close> the call throws the
  \<open>THROTTLED\<close> error made of the stored \<open>allowRequestsAfter\<close> and \<open>httpStatus\<close>, leaves the
  provider as it was and calls no collaborator; a further call inside the window gives
  the same again.
\<close>

theorem C1_throttle_on_entry:
  assumes "rc_throttleData s = Some td"
  shows "(allowRequestsAfter td < now \<longrightarrow>
            rc_throttleCheck ext now s = Inr (s\<lparr>rc_throttleData := None\<rparr>)
          \<and> rc_getToken ext att exch now now' s =
              rc_getToken ext att exch now now' (s\<lparr>rc_throttleData := None\<rparr>)
          \<and> (\<forall>app plp tok. rc_app s = Some app \<and> rc_platformLoggerProvider s = Some plp
                 \<and> att app = Inr tok \<longrightarrow>
               snd (snd (rc_getToken ext att exch now now' s)) =
                 [GetReCAPTCHAToken app, ExchangeToken app tok plp]))
       \<and> (now \<le> allowRequestsAfter td \<longrightarrow>
            rc_getToken ext att exch now now' s =
              (Inl (ERROR_FACTORY_create THROTTLED
                      [(''time'', JString (toLocaleString ext (allowRequestsAfter td))),
                       (''httpStatus'', JNumber (httpStatus td))]),
               s, [])
          \<and> (\<forall>later later'. later \<le> allowRequestsAfter td \<longrightarrow>
                rc_getToken ext att exch later later'
                    (fst (snd (rc_getToken ext att exch now now' s))) =
                  rc_getToken ext att exch now now' s))"
proof (intro conjI impI allI)
  assume after: "allowRequestsAfter td < now"
  show "rc_throttleCheck ext now s = Inr (s\<lparr>rc_throttleData := None\<rparr>)"
    using assms after by (rule rc_throttleCheck_after)
  show cl: "rc_getToken ext att exch now now' s =
        rc_getToken ext att exch now now' (s\<lparr>rc_throttleData := None\<rparr>)"
    using assms after by (rule rc_getToken_cleared)
  fix app plp tok
  assume "rc_app s = Some app \<and> rc_platformLoggerProvider s = Some plp \<and> att app = Inr tok"
  then show "snd (snd (rc_getToken ext att exch now now' s)) =
      [GetReCAPTCHAToken app, ExchangeToken app tok plp]"
    by (simp add: cl rc_getToken_exchanged split: sum.splits)
next
  assume within: "now \<le> allowRequestsAfter td"
  show "rc_getToken ext att exch now now' s =
      (Inl (ERROR_FACTORY_create THROTTLED
              [(''time'', JString (toLocaleString ext (allowRequestsAfter td))),
               (''httpStatus'', JNumber (httpStatus td))]), s, [])"
    using rc_getToken_within [OF assms within] by (simp add: throttled_error_def)
next
  fix later later' :: int
  assume within: "now \<le> allowRequestsAfter td" and again: "later \<le> allowRequestsAfter td"
  show "rc_getToken ext att exch later later'
          (fst (snd (rc_getToken ext att exch now now' s))) =
        rc_getToken ext att exch now now' s"
    by (simp add: rc_getToken_within [OF assms within] rc_getToken_within [OF assms again])
qed

theorem C1_throttle_on_entry_witness:
  "rc_throttleData throttled_provider =
     Some \<lparr>backoffCount = 5, allowRequestsAfter = 1000, httpStatus = Num 500\<rparr>
   \<and> (1000 :: int) < 1001
   \<and> snd (snd (rc_getToken example_externals attested (exchange_fails network_error)
                 1001 1002 throttled_provider)) =
       [GetReCAPTCHAToken ''app'', ExchangeToken ''app'' ''attested-claims'' 7]
   \<and> (999 :: int) \<le> 1000
   \<and> rc_getToken example_externals attested (exchange_fails network_error)
        999 1002 throttled_provider =
       (Inl \<lparr>code = Some THROTTLED,
             customData = Some [(''time'', JString ''1/1/1970, 12:00:01 AM''),
                                (''httpStatus'', JNumber (Num 500))]\<rparr>,
        throttled_provider, [])"
proof -
  let ?td = "\<lparr>backoffCount = 5, allowRequestsAfter = 1000, httpStatus = Num 500\<rparr>"
  have rec: "rc_throttleData throttled_provider = Some ?td"
    by (rule throttled_provider_fields)
  have att: "attested ''app'' = Inr ''attested-claims''"
    by (simp add: attested_def)
  have after: "snd (snd (rc_getToken example_externals attested (exchange_fails network_error)
                 1001 1002 throttled_provider)) =
       [GetReCAPTCHAToken ''app'', ExchangeToken ''app'' ''attested-claims'' 7]"
  proof -
    have lt: "allowRequestsAfter ?td < 1001" by simp
    from C1_throttle_on_entry [OF rec, of 1001 example_externals attested
        "exchange_fails network_error" 1002] lt throttled_provider_fields(1,2) att
    show ?thesis by blast
  qed
  have within: "rc_getToken example_externals attested (exchange_fails network_error)
        999 1002 throttled_provider =
       (Inl \<lparr>code = Some THROTTLED,
             customData = Some [(''time'', JString ''1/1/1970, 12:00:01 AM''),
                                (''httpStatus'', JNumber (Num 500))]\<rparr>,
        throttled_provider, [])"
    using C1_throttle_on_entry [OF rec, of 999 example_externals attested
        "exchange_fails network_error" 1002]
    by (simp add: ERROR_FACTORY_create_def example_externals_fields)
  show ?thesis using rec after within by simp
qed

text \<open>
  C1 as the specification states it clears the record when \<open>now \<ge> allowRequestsAfter\<close>.
  At \<open>now = allowRequestsAfter = 1000\<close> the record stays and no collaborator is called.
\<close>

theorem C1_counterexample:
  "allowRequestsAfter \<lparr>backoffCount = 5, allowRequestsAfter = 1000, httpStatus = Num 500\<rparr> \<le> 1000
   \<and> rc_throttleData (fst (snd
        (rc_getToken example_externals attested (exchange_fails (status_error JUndefined))
           1000 1000 throttled_provider))) =
       Some \<lparr>backoffCount = 5, allowRequestsAfter = 1000, httpStatus = Num 500\<rparr>
   \<and> snd (snd
        (rc_getToken example_externals attested (exchange_fails (status_error JUndefined))
           1000 1000 throttled_provider)) = []"
  by (simp add: rc_getToken_def rc_throttleCheck_def throttled_provider_def)

section \<open>The throttle transitions\<close>

text \<open>
  C3. A failure with status 403 or 404 stores, whatever record was there before,
  \<open>allowRequestsAfter = now + ONE_DAY\<close>, \<open>backoffCount = 1\<close> and the failure's status.
\<close>

theorem C3_hard_block:
  assumes "status = Num 403 \<or> status = Num 404"
  shows "fst (setBackoff ext now status s) =
           \<lparr>backoffCount = 1, allowRequestsAfter = now + ONE_DAY, httpStatus = status\<rparr>
         \<and> snd (setBackoff ext now status s) =
           s\<lparr>rc_throttleData :=
               Some \<lparr>backoffCount = 1, allowRequestsAfter = now + ONE_DAY, httpStatus = status\<rparr>\<rparr>"
  using assms by (auto simp: setBackoff_def Let_def)

theorem C3_hard_block_witness:
  "(Num 403 = Num 403 \<or> Num 403 = Num 404)
   \<and> fst (setBackoff example_externals 5000 (Num 403) throttled_provider) =
       \<lparr>backoffCount = 1, allowRequestsAfter = 86405000, httpStatus = Num 403\<rparr>"
  using C3_hard_block [of "Num 403" example_externals 5000 throttled_provider]
  by (simp add: ONE_DAY_def)

text \<open>
  C4. A failure with any other status stores \<open>backoffCount\<close> one above the previous
  record's (one above 0 without a record),
  \<open>allowRequestsAfter = now + calculateBackoffMillis(previous backoffCount, 1000, 2)\<close>
  and the failure's status.
\<close>

theorem C4_transient:
  assumes "status \<noteq> Num 403" and "status \<noteq> Num 404"
  shows "(rc_throttleData s = None \<longrightarrow>
            fst (setBackoff ext now status s) =
              \<lparr>backoffCount = 0 + 1,
               allowRequestsAfter = now + calculateBackoffMillis ext 0 1000 2,
               httpStatus = status\<rparr>)
       \<and> (\<forall>prev. rc_throttleData s = Some prev \<longrightarrow>
            fst (setBackoff ext now status s) =
              \<lparr>backoffCount = backoffCount prev + 1,
               allowRequestsAfter = now + calculateBackoffMillis ext (backoffCount prev) 1000 2,
               httpStatus = status\<rparr>)
       \<and> snd (setBackoff ext now status s) =
            s\<lparr>rc_throttleData := Some (fst (setBackoff ext now status s))\<rparr>"
proof -
  have nohard: "\<not> (strict_eq status (Num 404) \<or> strict_eq status (Num 403))"
    using assms by (cases status) auto
  show ?thesis
    using nohard by (simp add: setBackoff_def Let_def)
qed

theorem C4_transient_witness:
  "Num 500 \<noteq> Num 403 \<and> Num 500 \<noteq> Num 404
   \<and> rc_throttleData example_provider = None
   \<and> fst (setBackoff example_externals 5000 (Num 500) example_provider) =
       \<lparr>backoffCount = 1, allowRequestsAfter = 6000, httpStatus = Num 500\<rparr>
   \<and> rc_throttleData throttled_provider =
       Some \<lparr>backoffCount = 5, allowRequestsAfter = 1000, httpStatus = Num 500\<rparr>
   \<and> fst (setBackoff example_externals 5000 (Num 500) throttled_provider) =
       \<lparr>backoffCount = 6, allowRequestsAfter = 37000, httpStatus = Num 500\<rparr>"
  using C4_transient [of "Num 500" example_provider example_externals 5000]
    C4_transient [of "Num 500" throttled_provider example_externals 5000]
  by (simp add: example_provider_fields throttled_provider_fields example_externals_fields)

section \<open>Failures of the exchange\<close>

text \<open>
  C5. When the exchange of a call throws \<open>e\<close>: with the code \<open>FETCH_STATUS_ERROR\<close>,
  \<open>_setBackoff\<close> runs with \<open>Number(e.customData?.httpStatus)\<close> and the call throws the
  \<open>THROTTLED\<close> error made of the new record's \<open>allowRequestsAfter\<close> and \<open>httpStatus\<close>;
  with any other code, or none, the call throws \<open>e\<close> itself, the provider stays as it was
  when the exchange was called, and the exchange has been called once.
\<close>

theorem C5_exchange_failure:
  assumes "rc_throttleData s = None \<or>
           (\<exists>td. rc_throttleData s = Some td \<and> allowRequestsAfter td < now)"
    and "rc_app s = Some app" and "rc_platformLoggerProvider s = Some plp"
    and "att app = Inr tok" and "exch app tok plp = Inl e"
  shows "(code e = Some FETCH_STATUS_ERROR \<longrightarrow>
            (\<exists>td'. setBackoff ext now' (Number ext (optional_httpStatus e))
                      (s\<lparr>rc_throttleData := None\<rparr>)
                    = (td', s\<lparr>rc_throttleData := Some td'\<rparr>)
              \<and> rc_getToken ext att exch now now' s =
                  (Inl (ERROR_FACTORY_create THROTTLED
                          [(''time'', JString (toLocaleString ext (allowRequestsAfter td'))),
                           (''httpStatus'', JNumber (httpStatus td'))]),
                   s\<lparr>rc_throttleData := Some td'\<rparr>,
                   [GetReCAPTCHAToken app, ExchangeToken app tok plp])))
       \<and> (code e \<noteq> Some FETCH_STATUS_ERROR \<longrightarrow>
            rc_getToken ext att exch now now' s =
              (Inl e, s\<lparr>rc_throttleData := None\<rparr>,
               [GetReCAPTCHAToken app, ExchangeToken app tok plp]))"
proof -
  let ?s1 = "s\<lparr>rc_throttleData := None\<rparr>"
  have entry: "rc_getToken ext att exch now now' s = rc_getToken ext att exch now now' ?s1"
    using assms(1) by (rule rc_getToken_entry_passed)
  have run: "rc_getToken ext att exch now now' ?s1 =
      (Inl (fst (rc_catch ext now' e ?s1)), snd (rc_catch ext now' e ?s1),
       [GetReCAPTCHAToken app, ExchangeToken app tok plp])"
    using assms(2-5) by (simp add: rc_getToken_exchanged)
  have sb: "snd (setBackoff ext n st ?s1) =
      s\<lparr>rc_throttleData := Some (fst (setBackoff ext n st ?s1))\<rparr>" for n st
    by (simp add: setBackoff_stores)
  show ?thesis
  proof (intro conjI impI)
    assume c: "code e = Some FETCH_STATUS_ERROR"
    let ?r = "setBackoff ext now' (Number ext (optional_httpStatus e)) ?s1"
    have "?r = (fst ?r, s\<lparr>rc_throttleData := Some (fst ?r)\<rparr>)"
      using sb [of now' "Number ext (optional_httpStatus e)"] by (simp add: prod_eq_iff)
    moreover have "rc_getToken ext att exch now now' s =
        (Inl (throttled_error ext (fst ?r)), s\<lparr>rc_throttleData := Some (fst ?r)\<rparr>,
         [GetReCAPTCHAToken app, ExchangeToken app tok plp])"
      using c sb [of now' "Number ext (optional_httpStatus e)"]
      by (simp add: entry run rc_catch_status)
    ultimately show "\<exists>td'. ?r = (td', s\<lparr>rc_throttleData := Some td'\<rparr>)
        \<and> rc_getToken ext att exch now now' s =
            (Inl (ERROR_FACTORY_create THROTTLED
                    [(''time'', JString (toLocaleString ext (allowRequestsAfter td'))),
                     (''httpStatus'', JNumber (httpStatus td'))]),
             s\<lparr>rc_throttleData := Some td'\<rparr>,
             [GetReCAPTCHAToken app, ExchangeToken app tok plp])"
      by (intro exI [of _ "fst ?r"]) (simp add: throttled_error_def)
  next
    assume "code e \<noteq> Some FETCH_STATUS_ERROR"
    then show "rc_getToken ext att exch now now' s =
        (Inl e, ?s1, [GetReCAPTCHAToken app, ExchangeToken app tok plp])"
      by (simp add: entry run rc_catch_other)
  qed
qed

theorem C5_exchange_failure_witness:
  "rc_throttleData example_provider = None
   \<and> rc_app example_provider = Some ''app''
   \<and> rc_platformLoggerProvider example_provider = Some 7
   \<and> attested ''app'' = Inr ''attested-claims''
   \<and> exchange_fails (status_error (JNumber (Num 503))) ''app'' ''attested-claims'' 7 =
       Inl (status_error (JNumber (Num 503)))
   \<and> code (status_error (JNumber (Num 503))) = Some FETCH_STATUS_ERROR
   \<and> rc_getToken example_externals attested (exchange_fails (status_error (JNumber (Num 503))))
        0 10 example_provider =
       (Inl \<lparr>code = Some THROTTLED,
             customData = Some [(''time'', JString ''later''),
                                (''httpStatus'', JNumber (Num 503))]\<rparr>,
        example_provider
          \<lparr>rc_throttleData :=
             Some \<lparr>backoffCount = 1, allowRequestsAfter = 1010, httpStatus = Num 503\<rparr>\<rparr>,
        [GetReCAPTCHAToken ''app'', ExchangeToken ''app'' ''attested-claims'' 7])
   \<and> code network_error \<noteq> Some FETCH_STATUS_ERROR
   \<and> rc_getToken example_externals attested (exchange_fails network_error)
        0 10 example_provider =
       (Inl network_error, example_provider,
        [GetReCAPTCHAToken ''app'', ExchangeToken ''app'' ''attested-claims'' 7])"
proof -
  let ?e = "status_error (JNumber (Num 503))"
  have clear: "rc_throttleData example_provider = None \<or>
      (\<exists>td. rc_throttleData example_provider = Some td \<and> allowRequestsAfter td < 0)"
    by (simp add: example_provider_fields)
  have att: "attested ''app'' = Inr ''attested-claims''"
    by (simp add: attested_def)
  have ex1: "exchange_fails ?e ''app'' ''attested-claims'' 7 = Inl ?e"
    and ex2: "exchange_fails network_error ''app'' ''attested-claims'' 7 = Inl network_error"
    by (simp_all add: exchange_fails_def)
  have c1: "code ?e = Some FETCH_STATUS_ERROR" and c2: "code network_error \<noteq> Some FETCH_STATUS_ERROR"
    by (simp_all add: status_error_def network_error_def)
  have same: "example_provider\<lparr>rc_throttleData := None\<rparr> = example_provider"
    by (simp add: example_provider_fields)
  have num: "Number example_externals (optional_httpStatus ?e) = Num 503"
    by (simp add: optional_httpStatus_def status_error_def get_prop_def)
  have sb: "setBackoff example_externals 10 (Num 503) example_provider =
      (\<lparr>backoffCount = 1, allowRequestsAfter = 1010, httpStatus = Num 503\<rparr>,
       example_provider
         \<lparr>rc_throttleData :=
            Some \<lparr>backoffCount = 1, allowRequestsAfter = 1010, httpStatus = Num 503\<rparr>\<rparr>)"
    by (simp add: setBackoff_def Let_def example_provider_fields example_externals_fields)
  have r1: "rc_getToken example_externals attested (exchange_fails ?e) 0 10 example_provider =
       (Inl \<lparr>code = Some THROTTLED,
             customData = Some [(''time'', JString ''later''),
                                (''httpStatus'', JNumber (Num 503))]\<rparr>,
        example_provider
          \<lparr>rc_throttleData :=
             Some \<lparr>backoffCount = 1, allowRequestsAfter = 1010, httpStatus = Num 503\<rparr>\<rparr>,
        [GetReCAPTCHAToken ''app'', ExchangeToken ''app'' ''attested-claims'' 7])"
    using C5_exchange_failure [of example_provider 0 "''app''" 7 attested
        "''attested-claims''" "exchange_fails ?e" ?e example_externals 10,
        OF clear example_provider_fields(1,2) att ex1] c1
    by (simp add: same num sb ERROR_FACTORY_create_def example_externals_fields)
  have r2: "rc_getToken example_externals attested (exchange_fails network_error)
        0 10 example_provider =
       (Inl network_error, example_provider,
        [GetReCAPTCHAToken ''app'', ExchangeToken ''app'' ''attested-claims'' 7])"
    using C5_exchange_failure [of example_provider 0 "''app''" 7 attested
        "''attested-claims''" "exchange_fails network_error" network_error
        example_externals 10, OF clear example_provider_fields(1,2) att ex2] c2
    by (simp add: same)
  show ?thesis
    using r1 r2 att ex1 c1 c2 by (simp add: example_provider_fields)
qed




section \<open>The token of the custom provider\<close>

text \<open>
  What the code computes, with \<open>t\<close> the number \<open>issuedAtTime\<close> extracts from the token
  string and \<open>now\<close> the value of \<open>Date.now()\<close>: \<open>t * 1000\<close> when the number \<open>t\<close>, a count of
  seconds, is above 0 and below the number \<open>now\<close>, a count of milliseconds; \<open>now\<close> when
  \<open>t\<close> is absent, no number, \<open>t \<le> 0\<close> or \<open>t \<ge> now\<close>.
\<close>

lemma cp_getToken_issuedAtTimeMillis:
  assumes "cp_app s = Some app"
  shows "(issuedAtTime ext (get_prop customToken ''token'') = Some (Num t) \<and> 0 < t \<and> t < now
            \<longrightarrow> (\<exists>obj. cp_getToken ext now (Inr customToken) s = Inr obj
                   \<and> get_prop obj ''issuedAtTimeMillis'' = JNumber (Num (t * 1000))))
       \<and> (issuedAtTime ext (get_prop customToken ''token'') = None
          \<or> issuedAtTime ext (get_prop customToken ''token'') = Some NaN
          \<or> issuedAtTime ext (get_prop customToken ''token'') = Some (Num t) \<and> (t \<le> 0 \<or> now \<le> t)
            \<longrightarrow> (\<exists>obj. cp_getToken ext now (Inr customToken) s = Inr obj
                   \<and> get_prop obj ''issuedAtTimeMillis'' = JNumber (Num now)))"
  using assms
  by (auto simp: cp_getToken_def Let_def get_prop_def update_conv')

text \<open>
  C2. A token whose embedded timestamp is one day in the future: \<open>Date.now()\<close> is
  1700000000000 ms, that is 1700000000 s, and the token carries \<open>iat = 1700086400\<close> s.
  The timestamp is not before the current time, yet the result carries
  \<open>issuedAtTimeMillis = 1700086400000\<close>, later than \<open>Date.now()\<close>, and not the current
  time: the code compares the seconds of \<open>iat\<close> with the milliseconds of \<open>Date.now()\<close>.
\<close>

theorem C2_future_iat_accepted:
  "issuedAtTime example_externals (get_prop future_token ''token'') = Some (Num 1700086400)
   \<and> (1700000000000 :: int) < 1700086400 * 1000
   \<and> cp_getToken example_externals 1700000000000 (Inr future_token) example_custom =
       Inr [(''token'', JString ''jwt-1700086400''),
            (''expireTimeMillis'', JNumber (Num 1700090000000)),
            (''issuedAtTimeMillis'', JNumber (Num 1700086400000))]"
  by (simp add: cp_getToken_def get_prop_def future_token_def example_custom_def
      cp_initialize_def new_CustomProvider_def example_externals_def Let_def)

text \<open>
  C10. The result of \<open>getToken\<close> has every property of the callback's token other than
  \<open>issuedAtTimeMillis\<close> with its value and in its place, the \<open>token\<close> string among them;
  \<open>issuedAtTimeMillis\<close> is a number.
\<close>

theorem C10_fields_preserved:
  assumes "cp_app s = Some app"
  shows "\<exists>obj n. cp_getToken ext now (Inr customToken) s = Inr obj
           \<and> (\<forall>k. k \<noteq> ''issuedAtTimeMillis'' \<longrightarrow> get_prop obj k = get_prop customToken k)
           \<and> get_prop obj ''token'' = get_prop customToken ''token''
           \<and> filter (\<lambda>q. fst q \<noteq> ''issuedAtTimeMillis'') obj =
               filter (\<lambda>q. fst q \<noteq> ''issuedAtTimeMillis'') customToken
           \<and> get_prop obj ''issuedAtTimeMillis'' = JNumber n"
  using assms
  by (simp add: cp_getToken_def Let_def get_prop_def update_conv' filter_update_other)

theorem C10_fields_preserved_witness:
  "cp_app example_custom = Some ''app''
   \<and> (\<exists>obj. cp_getToken example_externals 100 (Inr reused_token) example_custom = Inr obj
         \<and> get_prop obj ''token'' = JString ''jwt-5''
         \<and> get_prop obj ''expireTimeMillis'' = JNumber (Num 900000)
         \<and> filter (\<lambda>q. fst q \<noteq> ''issuedAtTimeMillis'') obj = reused_token)"
proof -
  have tok: "get_prop reused_token ''token'' = JString ''jwt-5''"
    and exp: "get_prop reused_token ''expireTimeMillis'' = JNumber (Num 900000)"
    and flt: "filter (\<lambda>q. fst q \<noteq> ''issuedAtTimeMillis'') reused_token = reused_token"
    by (simp_all add: reused_token_def get_prop_def)
  from C10_fields_preserved [OF example_custom_fields(1), of example_externals 100 reused_token]
  obtain obj n where o: "cp_getToken example_externals 100 (Inr reused_token) example_custom = Inr obj"
    and other: "\<forall>k. k \<noteq> ''issuedAtTimeMillis'' \<longrightarrow> get_prop obj k = get_prop reused_token k"
    and same: "filter (\<lambda>q. fst q \<noteq> ''issuedAtTimeMillis'') obj =
               filter (\<lambda>q. fst q \<noteq> ''issuedAtTimeMillis'') reused_token"
    by blast
  have "get_prop obj ''token'' = JString ''jwt-5''"
    using other tok by simp
  moreover have "get_prop obj ''expireTimeMillis'' = JNumber (Num 900000)"
    using other exp by simp
  moreover have "filter (\<lambda>q. fst q \<noteq> ''issuedAtTimeMillis'') obj = reused_token"
    using same flt by simp
  ultimately show ?thesis using o example_custom_fields(1) by simp
qed

section \<open>Equality\<close>

text \<open>
  C7. \<open>isEqual\<close> is reflexive and symmetric on providers. Two \<open>ReCaptchaV3Provider\<close>s are
  equal exactly when their site keys are; two \<open>CustomProvider\<close>s exactly when the text of
  their callbacks is, so in particular when the same callback was supplied. A provider is
  never equal to one of the other class or to a value that is no provider.
\<close>

theorem C7_isEqual:
  "isEqual p (AProvider p)
   \<and> isEqual p (AProvider q) = isEqual q (AProvider p)
   \<and> isEqual (ReCaptchaV3 a) (AProvider (ReCaptchaV3 b)) = (rc_siteKey a = rc_siteKey b)
   \<and> isEqual (Custom c) (AProvider (Custom d)) =
       (fn_toString (opt_getToken (cp_customProviderOptions c)) =
        fn_toString (opt_getToken (cp_customProviderOptions d)))
   \<and> (opt_getToken (cp_customProviderOptions c) = opt_getToken (cp_customProviderOptions d)
        \<longrightarrow> isEqual (Custom c) (AProvider (Custom d)))
   \<and> \<not> isEqual (ReCaptchaV3 a) (AProvider (Custom c))
   \<and> \<not> isEqual (Custom c) (AProvider (ReCaptchaV3 a))
   \<and> \<not> isEqual p (NotAProvider v)"
proof -
  have refl: "isEqual p (AProvider p)"
    by (cases p) (simp_all add: rc_isEqual_def cp_isEqual_def)
  have sym: "isEqual p (AProvider q) = isEqual q (AProvider p)"
    by (cases p; cases q) (auto simp: rc_isEqual_def cp_isEqual_def)
  have non: "\<not> isEqual p (NotAProvider v)"
    by (cases p) (simp_all add: rc_isEqual_def cp_isEqual_def)
  show ?thesis
    using refl sym non by (simp add: rc_isEqual_def cp_isEqual_def)
qed

theorem C7_isEqual_witness:
  "opt_getToken (cp_customProviderOptions example_custom) =
     opt_getToken (cp_customProviderOptions (new_CustomProvider \<lparr>opt_getToken = example_callback\<rparr>))
   \<and> isEqual (Custom example_custom)
       (AProvider (Custom (new_CustomProvider \<lparr>opt_getToken = example_callback\<rparr>)) :: nat unknown)
   \<and> \<not> isEqual (ReCaptchaV3 example_provider) (AProvider (Custom example_custom))
   \<and> isEqual (ReCaptchaV3 example_provider) (AProvider (ReCaptchaV3 throttled_provider))"
proof -
  have same: "opt_getToken (cp_customProviderOptions example_custom) =
      opt_getToken (cp_customProviderOptions (new_CustomProvider \<lparr>opt_getToken = example_callback\<rparr>))"
    by (simp add: example_custom_fields new_CustomProvider_def)
  have keys: "rc_siteKey example_provider = rc_siteKey throttled_provider"
    by (simp add: throttled_provider_def)
  note t = C7_isEqual [of "ReCaptchaV3 example_provider" "ReCaptchaV3 throttled_provider"
      example_provider throttled_provider example_custom
      "new_CustomProvider \<lparr>opt_getToken = example_callback\<rparr>" JNull]
  show ?thesis using t same keys by blast
qed

section \<open>The throttle record and initialization\<close>

lemma step_throttle_inv: "throttle_inv c \<Longrightarrow> throttle_inv (step ev c)"
proof (cases c)
  case (Pair s awaiting)
  assume inv: "throttle_inv c"
  show ?thesis
  proof (cases ev)
    case (Initialize getProvider app)
    then show ?thesis
      by (simp add: Pair throttle_inv_def initialized_def rc_initialize_def)
  next
    case (GetTokenCalled ext now)
    show ?thesis
    proof (cases "rc_throttleCheck ext now s")
      case (Inl err)
      then show ?thesis using inv by (simp add: Pair GetTokenCalled)
    next
      case (Inr s1)
      note f = rc_throttleCheck_fields [OF Inr]
      show ?thesis
      proof (cases "rc_activationCheck s1")
        case (Inl err)
        then show ?thesis
          using inv f Inr
          by (auto simp: Pair GetTokenCalled throttle_inv_def initialized_def)
      next
        case act: (Inr ap)
        then show ?thesis
          using rc_activationCheck_passed [OF act] Inr
          by (simp add: Pair GetTokenCalled throttle_inv_def)
      qed
    qed
  next
    case CallSettles
    then show ?thesis
      using inv by (auto simp: Pair throttle_inv_def split: if_splits)
  next
    case (ExchangeFails ext now e)
    then show ?thesis
      using inv rc_catch_fields [of ext now e s]
      by (auto simp: Pair throttle_inv_def initialized_def split: if_splits)
  qed
qed

lemma run_throttle_inv: "throttle_inv c \<Longrightarrow> throttle_inv (run evs c)"
  by (induction evs arbitrary: c) (simp_all add: step_throttle_inv)

lemma step_uninitialized:
  "\<not> is_Initialize ev \<Longrightarrow> rc_app (fst c) = None \<Longrightarrow> snd c = 0 \<Longrightarrow>
   rc_app (fst (step ev c)) = None \<and> snd (step ev c) = 0"
proof (cases c)
  case (Pair s awaiting)
  assume a: "\<not> is_Initialize ev" "rc_app (fst c) = None" "snd c = 0"
  show ?thesis
  proof (cases ev)
    case (GetTokenCalled ext now)
    show ?thesis
    proof (cases "rc_throttleCheck ext now s")
      case (Inl err)
      then show ?thesis using a by (simp add: Pair GetTokenCalled)
    next
      case (Inr s1)
      then show ?thesis
        using a rc_throttleCheck_fields [OF Inr]
        by (simp add: Pair GetTokenCalled rc_activationCheck_unset)
    qed
  qed (use a in \<open>simp_all add: Pair\<close>)
qed

lemma run_uninitialized:
  "\<forall>ev \<in> set evs. \<not> is_Initialize ev \<Longrightarrow> rc_app (fst c) = None \<Longrightarrow> snd c = 0 \<Longrightarrow>
   rc_app (fst (run evs c)) = None"
proof (induction evs arbitrary: c)
  case Nil
  then show ?case by simp
next
  case (Cons ev evs)
  have "rc_app (fst (step ev c)) = None \<and> snd (step ev c) = 0"
    using Cons.prems by (intro step_uninitialized) simp_all
  then show ?case using Cons by simp
qed

text \<open>A whole call of \<open>getToken\<close>, run without interleaving, is a history.\<close>

lemma rc_getToken_is_history:
  "\<exists>evs. (\<forall>ev \<in> set evs. \<not> is_Initialize ev) \<and>
      fst (run evs (s, awaiting)) = fst (snd (rc_getToken ext att exch now now' s))"
proof (cases "rc_throttleCheck ext now s")
  case (Inl err)
  then have "fst (run [] (s, awaiting)) = fst (snd (rc_getToken ext att exch now now' s))"
    by (simp add: rc_getToken_def)
  then show ?thesis by (intro exI [of _ "[]"]) simp
next
  case chk: (Inr s1)
  show ?thesis
  proof (cases "rc_activationCheck s1")
    case (Inl err)
    then have "fst (run [GetTokenCalled ext now] (s, awaiting)) =
        fst (snd (rc_getToken ext att exch now now' s))"
      by (simp add: rc_getToken_def chk)
    then show ?thesis by (intro exI [of _ "[GetTokenCalled ext now]"]) simp
  next
    case act: (Inr ap)
    obtain app plp where ap: "ap = (app, plp)" by (cases ap)
    show ?thesis
    proof (cases "\<exists>tok e. att app = Inr tok \<and> exch app tok plp = Inl e")
      case True
      then obtain tok e where "att app = Inr tok" "exch app tok plp = Inl e" by blast
      then have "fst (run [GetTokenCalled ext now, ExchangeFails ext now' e] (s, awaiting)) =
          fst (snd (rc_getToken ext att exch now now' s))"
        by (simp add: rc_getToken_def chk act ap case_prod_beta)
      then show ?thesis
        by (intro exI [of _ "[GetTokenCalled ext now, ExchangeFails ext now' e]"]) simp
    next
      case False
      then have "fst (run [GetTokenCalled ext now, CallSettles] (s, awaiting)) =
          fst (snd (rc_getToken ext att exch now now' s))"
        by (auto simp: rc_getToken_def chk act ap split: sum.splits)
      then show ?thesis
        by (intro exI [of _ "[GetTokenCalled ext now, CallSettles]"]) simp
    qed
  qed
qed

text \<open>
  C8. After any history of a new provider, a throttle record implies that \<open>_app\<close> and
  \<open>_platformLoggerProvider\<close> are set; and when the history has no \<open>initialize\<close>, there is no
  record and \<open>getToken\<close> throws the \<open>USE_BEFORE_ACTIVATION\<close> error with an empty app name,
  changing nothing and calling no collaborator.
\<close>

theorem C8_throttle_implies_initialized:
  assumes "run evs (new_ReCaptchaV3Provider siteKey, 0) = (s, awaiting)"
  shows "(rc_throttleData s \<noteq> None \<longrightarrow>
            rc_app s \<noteq> None \<and> rc_platformLoggerProvider s \<noteq> None)
       \<and> ((\<forall>ev \<in> set evs. \<not> is_Initialize ev) \<longrightarrow>
            rc_app s = None \<and> rc_throttleData s = None
          \<and> rc_getToken ext att exch now now' s =
              (Inl (ERROR_FACTORY_create USE_BEFORE_ACTIVATION [(''appName'', JString [])]),
               s, []))"
proof -
  let ?c0 = "(new_ReCaptchaV3Provider siteKey :: 'a ReCaptchaV3Provider, 0 :: nat)"
  have "throttle_inv ?c0"
    by (simp add: throttle_inv_def new_ReCaptchaV3Provider_def)
  then have "throttle_inv (run evs ?c0)" by (rule run_throttle_inv)
  then have inv: "rc_throttleData s \<noteq> None \<longrightarrow> initialized s"
    using assms by (simp add: throttle_inv_def split: if_splits)
  have un: "rc_app s = None" if "\<forall>ev \<in> set evs. \<not> is_Initialize ev"
    using run_uninitialized [OF that, of ?c0] assms
    by (simp add: new_ReCaptchaV3Provider_def)
  show ?thesis
  proof (intro conjI impI)
    assume "rc_throttleData s \<noteq> None"
    then show "rc_app s \<noteq> None" "rc_platformLoggerProvider s \<noteq> None"
      using inv by (simp_all add: initialized_def)
  next
    assume no: "\<forall>ev \<in> set evs. \<not> is_Initialize ev"
    show a: "rc_app s = None" using un no by simp
    show t: "rc_throttleData s = None"
      using inv a by (auto simp: initialized_def)
    show "rc_getToken ext att exch now now' s =
        (Inl (ERROR_FACTORY_create USE_BEFORE_ACTIVATION [(''appName'', JString [])]), s, [])"
      using t a by (simp add: rc_getToken_uninitialized)
  qed
qed

theorem C8_throttle_implies_initialized_witness:
  "run [Initialize (\<lambda>app name. 7) ''app'', GetTokenCalled example_externals 0,
        ExchangeFails example_externals 10 (status_error (JNumber (Num 500)))]
       (new_ReCaptchaV3Provider ''site-key'', 0) =
     (example_provider
        \<lparr>rc_throttleData :=
           Some \<lparr>backoffCount = 1, allowRequestsAfter = 1010, httpStatus = Num 500\<rparr>\<rparr>, 0)
   \<and> rc_app (example_provider
        \<lparr>rc_throttleData :=
           Some \<lparr>backoffCount = 1, allowRequestsAfter = 1010, httpStatus = Num 500\<rparr>\<rparr>) \<noteq> None
   \<and> run [GetTokenCalled example_externals 0, CallSettles]
       (new_ReCaptchaV3Provider ''site-key'', 0) =
       (new_ReCaptchaV3Provider ''site-key'' :: nat ReCaptchaV3Provider, 0)
   \<and> rc_getToken example_externals attested (exchange_fails network_error) 0 10
       (new_ReCaptchaV3Provider ''site-key'' :: nat ReCaptchaV3Provider) =
       (Inl \<lparr>code = Some USE_BEFORE_ACTIVATION,
             customData = Some [(''appName'', JString [])]\<rparr>,
        new_ReCaptchaV3Provider ''site-key'', [])"
proof -
  let ?s = "example_provider
        \<lparr>rc_throttleData :=
           Some \<lparr>backoffCount = 1, allowRequestsAfter = 1010, httpStatus = Num 500\<rparr>\<rparr>"
  let ?n = "new_ReCaptchaV3Provider ''site-key'' :: nat ReCaptchaV3Provider"
  have r1: "run [Initialize (\<lambda>app name. 7) ''app'', GetTokenCalled example_externals 0,
        ExchangeFails example_externals 10 (status_error (JNumber (Num 500)))] (?n, 0) = (?s, 0)"
    by (simp add: example_provider_def rc_initialize_def new_ReCaptchaV3Provider_def
        rc_throttleCheck_def rc_activationCheck_def rc_catch_def setBackoff_def Let_def
        optional_httpStatus_def get_prop_def status_error_def example_externals_fields)
  have r2: "run [GetTokenCalled example_externals 0, CallSettles] (?n, 0) = (?n, 0)"
    by (simp add: new_ReCaptchaV3Provider_def rc_throttleCheck_def rc_activationCheck_def)
  have rec: "rc_throttleData ?s \<noteq> None" by simp
  have noinit: "\<forall>ev \<in> set [GetTokenCalled example_externals 0, CallSettles :: nat event].
      \<not> is_Initialize ev"
    by simp
  have a: "rc_app ?s \<noteq> None"
    using C8_throttle_implies_initialized [OF r1] rec by blast
  have b: "rc_getToken example_externals attested (exchange_fails network_error) 0 10 ?n =
       (Inl (ERROR_FACTORY_create USE_BEFORE_ACTIVATION [(''appName'', JString [])]), ?n, [])"
    using C8_throttle_implies_initialized [OF r2] noinit by blast
  show ?thesis using r1 r2 a b by (simp add: ERROR_FACTORY_create_def)
qed

section \<open>Consecutive transient failures\<close>

text \<open>
  Whatever record the provider held, a call of \<open>getToken\<close> whose exchange fails with a
  status other than 403 and 404 stores \<open>backoffCount = 1\<close> and a delay computed from the
  count 0: the call reaches the exchange only with the record absent or just cleared.
\<close>

lemma rc_getToken_transient_restarts:
  assumes "rc_throttleData s = None \<or>
           (\<exists>td. rc_throttleData s = Some td \<and> allowRequestsAfter td < now)"
    and "rc_app s = Some app" and "rc_platformLoggerProvider s = Some plp"
    and "att app = Inr tok" and "exch app tok plp = Inl e"
    and "code e = Some FETCH_STATUS_ERROR"
    and "Number ext (optional_httpStatus e) = status"
    and "status \<noteq> Num 403" and "status \<noteq> Num 404"
  shows "rc_throttleData (fst (snd (rc_getToken ext att exch now now' s))) =
           Some \<lparr>backoffCount = 1,
                 allowRequestsAfter = now' + calculateBackoffMillis ext 0 1000 2,
                 httpStatus = status\<rparr>"
proof -
  let ?s1 = "s\<lparr>rc_throttleData := None\<rparr>"
  have entry: "rc_getToken ext att exch now now' s = rc_getToken ext att exch now now' ?s1"
    using assms(1) by (rule rc_getToken_entry_passed)
  have nohard: "\<not> (strict_eq status (Num 404) \<or> strict_eq status (Num 403))"
    using assms(8,9) by (cases status) auto
  have "rc_getToken ext att exch now now' ?s1 =
      (Inl (fst (rc_catch ext now' e ?s1)), snd (rc_catch ext now' e ?s1),
       [GetReCAPTCHAToken app, ExchangeToken app tok plp])"
    using assms(2-5) by (simp add: rc_getToken_exchanged)
  then show ?thesis
    using assms(6,7) nohard
    by (simp add: entry rc_catch_status setBackoff_def Let_def)
qed

text \<open>
  C6. Two calls of \<open>getToken\<close> in a row whose exchanges fail with status 500, the second
  one after the first window has passed: the stored \<open>backoffCount\<close> is 1 after the first
  and 1 again after the second, and the second delay is again 1000 ms. The check on
  entry has cleared the record before \<open>_setBackoff\<close> reads the previous count.
\<close>

theorem C6_backoffCount_stays_1:
  "rc_throttleData (fst (snd
      (rc_getToken example_externals attested (exchange_fails (status_error (JNumber (Num 500))))
         0 10 example_provider))) =
     Some \<lparr>backoffCount = 1, allowRequestsAfter = 1010, httpStatus = Num 500\<rparr>
   \<and> rc_throttleData (fst (snd
      (rc_getToken example_externals attested (exchange_fails (status_error (JNumber (Num 500))))
         2000 2010
         (fst (snd
            (rc_getToken example_externals attested
               (exchange_fails (status_error (JNumber (Num 500)))) 0 10 example_provider)))))) =
     Some \<lparr>backoffCount = 1, allowRequestsAfter = 3010, httpStatus = Num 500\<rparr>"
  by (simp add: rc_getToken_def rc_throttleCheck_def rc_activationCheck_def rc_catch_def
      setBackoff_def optional_httpStatus_def get_prop_def example_provider_def
      rc_initialize_def new_ReCaptchaV3Provider_def status_error_def attested_def
      exchange_fails_def example_externals_def Let_def)

end
